theory Spec2Isabelle
  imports Main "HOL-Library.Word" "HOL-Library.Signed_Division"
begin

unbundle bit_operations_syntax

text \<open>
  The hardware renderer of the GS and its texture cache: the two entry points through which
  writes and readbacks of the emulated memory reach the cache (\<open>InvalidateVideoMem\<close>,
  \<open>InvalidateLocalMem\<close>), the frame tick (\<open>VSync\<close>), the two display outputs (\<open>GetOutput\<close>,
  \<open>GetFeedbackOutput\<close>), the address range of a cached surface (\<open>Wraps\<close>,
  \<open>UnwrappedEndBlock\<close>, \<open>CheckOverlap\<close>), and the creation of a surface on Direct3D 11
  (\<open>CreateSurface\<close>). The functions are those of \<open>GSRendererHW.cpp\<close>, of the declarations of
  \<open>GSTextureCache\<close> and of \<open>GSDevice11.cpp\<close>.
\<close>

section \<open>Machine types\<close>

type_synonym u8 = "8 word"
type_synonym u16 = "16 word"
type_synonym u32 = "32 word"
type_synonym u64 = "64 word"

text \<open>
  A C++ \<open>int\<close> is a 32-bit word read as two's complement: \<open><s\<close> and \<open>\<le>s\<close> are the signed
  comparisons, \<open>+\<close> and \<open>-\<close> wrap.
\<close>

type_synonym s32 = "32 word"

text \<open>A \<open>float\<close> is only ever copied by the code modelled here: it is kept as its bit pattern.\<close>

type_synonym float = "32 word"

section \<open>Vectors, registers and transfers\<close>

text \<open>
  \<open>GSVector4i\<close> is four ints; the fields \<open>x, y, z, w\<close> of the source are also named
  \<open>left, top, right, bottom\<close> there. They are \<open>vx, vy, vz, vw\<close> here.
\<close>

record GSVector4i =
  vx :: s32
  vy :: s32
  vz :: s32
  vw :: s32

record GSVector2i =
  v2x :: s32
  v2y :: s32

text \<open>\<open>GSVector4i::eq\<close>: all four lanes are equal.\<close>

definition eq :: "GSVector4i \<Rightarrow> GSVector4i \<Rightarrow> bool" where
  "eq a b \<longleftrightarrow> vx a = vx b \<and> vy a = vy b \<and> vz a = vz b \<and> vw a = vw b"

text \<open>The fields of the BITBLTBUF register, read as \<open>u32\<close>.\<close>

record GIFRegBITBLTBUF =
  SBP :: u32
  SBW :: u32
  SPSM :: u32
  DBP :: u32
  DBW :: u32
  DPSM :: u32

text \<open>
  The fields of the TEX0 register that the renderer fills in for a lookup. They are bit fields:
  14 bits of block pointer, 6 bits of buffer width, 6 bits of pixel storage mode.
\<close>

record GIFRegTEX0 =
  TBP0 :: "14 word"
  TBW :: "6 word"
  PSM :: "6 word"

text \<open>An entry of \<open>m_draw_transfers\<close> (\<open>GSState::GSUploadQueue\<close>): the fields the renderer reads.\<close>

record GSUploadQueue =
  blit :: GIFRegBITBLTBUF
  rect :: GSVector4i
  draw :: s32

text \<open>
  \<open>m_mem.GetOffset(bp, bw, psm)\<close> belongs to the local memory (outside the renderer): the
  offset it returns is identified by the three arguments it was asked for.
\<close>

datatype GSOffset = GetOffset u32 u32 u32

section \<open>Surfaces and targets of the texture cache\<close>

text \<open>A \<open>GSTexture*\<close> is a handle, \<open>None\<close> for \<open>nullptr\<close>.\<close>

type_synonym GSTexture = nat

text \<open>The fields of \<open>GSTextureCache::Surface\<close>.\<close>

record Surface =
  m_texture :: "GSTexture option"
  m_TEX0 :: GIFRegTEX0
  m_unscaled_size :: GSVector2i
  m_scale :: float
  m_age :: s32
  m_end_block :: u32
  m_32_bits_fmt :: bool
  m_shared_texture :: bool

definition MAX_BP :: u32 where
  "MAX_BP = 0x3fff"

text \<open>
  Modelled from the spec: \<open>MAX_BLOCKS\<close> is a constant of the local memory, declared outside
  the files at hand. The spec calls it the size of the address space; block pointers run over
  \<open>0 .. MAX_BP\<close>, so it is \<open>MAX_BP + 1\<close> blocks.
\<close>

definition MAX_BLOCKS :: u32 where
  "MAX_BLOCKS = 16384"

text \<open>\<open>Surface::Wraps\<close>: the 14-bit \<open>TBP0\<close> is promoted for the comparison with the \<open>u32\<close> end block.\<close>

definition Wraps :: "'a Surface_scheme \<Rightarrow> bool" where
  "Wraps s \<longleftrightarrow> m_end_block s < ucast (TBP0 (m_TEX0 s))"

text \<open>\<open>Surface::UnwrappedEndBlock\<close>, in \<open>u32\<close> arithmetic.\<close>

definition UnwrappedEndBlock :: "'a Surface_scheme \<Rightarrow> u32" where
  "UnwrappedEndBlock s = m_end_block s + (if Wraps s then MAX_BLOCKS else 0)"

text \<open>\<open>GSTextureCache::Target\<close> extends \<open>Surface\<close>; the dirty list is kept as its rectangles.\<close>

record Target = Surface +
  m_type :: s32
  m_is_frame :: bool
  m_used :: bool
  m_dirty :: "GSVector4i list"
  m_valid :: GSVector4i
  m_valid_bits :: u32

text \<open>
  Modelled from the spec: \<open>Target::Update\<close> is declared with the class but defined with the
  texture cache, outside the files at hand. The spec has it flush the dirty queue into the GPU
  resource, entry by entry in the order of insertion, and then clear the queue; a target bound
  for use has its age reset. The resource is behind the handle \<open>m_texture\<close>, so what the model
  keeps of the flush is the emptied queue; the entries flushed are those of the target
  \<open>Update\<close> is called on, which the recorded call carries.
\<close>

definition Update :: "bool \<Rightarrow> Target \<Rightarrow> Target" where
  "Update reset_age t = t\<lparr>m_age := (if reset_age then 0 else m_age t), m_dirty := []\<rparr>"

text \<open>\<open>GSTextureCache::CheckOverlap\<close>.\<close>

definition CheckOverlap :: "u32 \<Rightarrow> u32 \<Rightarrow> u32 \<Rightarrow> u32 \<Rightarrow> bool" where
  "CheckOverlap a_bp a_bp_end b_bp b_bp_end =
     (let valid = (a_bp \<le> a_bp_end \<and> b_bp \<le> b_bp_end);
          overlap = (a_bp \<le> b_bp_end \<and> a_bp_end \<ge> b_bp)
      in valid \<and> overlap)"

section \<open>The renderer and its collaborators\<close>

text \<open>
  The texture cache, the device, the host and the base renderer are defined outside
  \<open>GSRendererHW.cpp\<close>. Every call the renderer makes on them is recorded, in order, with its
  arguments; what such a call returns is a parameter of the function that makes it, and the
  call itself leaves the renderer's fields below as they are.
  Default arguments of the callee (\<open>eewrite = false\<close>, \<open>target = true\<close>) are written out.
\<close>

datatype call =
    TC_InvalidateVideoMem GSOffset GSVector4i bool bool
  | TC_InvalidateLocalMem GSOffset GSVector4i
  | TC_IncAge
  | TC_RemoveAll
  | TC_LookupDisplayTarget GIFRegTEX0 GSVector2i float
  | Target_Update Target bool
  | ProcessAsyncLoadedTextures
  | GSRenderer_VSync u32 bool
  | Host_AddKeyedFormattedOSDMessage u64
  | Device_PurgePool
  | PCRTC_RemoveFramebufferOffset s32
  | m_oi_call "GSTexture option" "GSTexture option"

datatype TexturePreloadingLevel = Off | Partial | Full

text \<open>
  The renderer's fields that the functions below read or write, the two counters \<open>s_n\<close> and
  \<open>s_transfer_n\<close>, the two configuration entries they consult, and the calls made so far.
\<close>

record GSRendererHW =
  m_force_preload :: u8
  m_draw_transfers :: "GSUploadQueue list"
  s_n :: s32
  s_transfer_n :: s32
  m_last_draw_n :: s32
  m_last_transfer_n :: s32
  m_skip :: s32
  m_skip_offset :: s32
  LoadTextureReplacements :: bool
  TexturePreloading :: TexturePreloadingLevel
  calls :: "call list"

definition do_call :: "call \<Rightarrow> GSRendererHW \<Rightarrow> GSRendererHW" where
  "do_call c st = st\<lparr>calls := calls st @ [c]\<rparr>"

text \<open>The calls recorded in \<open>st'\<close> beyond those of \<open>st\<close>: what a function run from \<open>st\<close> has called.\<close>

definition calls_made :: "GSRendererHW \<Rightarrow> GSRendererHW \<Rightarrow> call list" where
  "calls_made st st' = drop (length (calls st)) (calls st')"

subsection \<open>\<open>GSRendererHW::InvalidateVideoMem\<close>\<close>

definition InvalidateVideoMem :: "GIFRegBITBLTBUF \<Rightarrow> GSVector4i \<Rightarrow> bool \<Rightarrow> GSRendererHW \<Rightarrow> GSRendererHW" where
  "InvalidateVideoMem BITBLTBUF r eewrite st =
     (let off = GetOffset (DBP BITBLTBUF) (DBW BITBLTBUF) (DPSM BITBLTBUF);
          rect = r;
          loop_h = (2048 <s vw r);
          rect = (if 2048 <s vw r then rect\<lparr>vw := 2048\<rparr> else rect);
          loop_w = (2048 <s vz r);
          rect = (if 2048 <s vz r then rect\<lparr>vz := 2048\<rparr> else rect)
      in if loop_h \<or> loop_w then
           (let st = do_call (TC_InvalidateVideoMem off rect eewrite True) st;
                rect = (if loop_h then rect\<lparr>vy := 0, vw := vw r - 2048\<rparr> else rect);
                rect = (if loop_w then rect\<lparr>vx := 0, vz := vw r - 2048\<rparr> else rect)
            in do_call (TC_InvalidateVideoMem off rect eewrite True) st)
         else do_call (TC_InvalidateVideoMem off r eewrite True) st)"

subsection \<open>\<open>GSRendererHW::InvalidateLocalMem\<close>\<close>

text \<open>The condition under which the loop stops at an entry of \<open>m_draw_transfers\<close>.\<close>

definition transfer_matches :: "GIFRegBITBLTBUF \<Rightarrow> GSVector4i \<Rightarrow> s32 \<Rightarrow> GSUploadQueue \<Rightarrow> bool" where
  "transfer_matches BITBLTBUF r n t \<longleftrightarrow>
     draw t = n \<and> SBP BITBLTBUF = DBP (blit t) \<and> DPSM (blit t) = SPSM BITBLTBUF \<and> eq r (rect t)"

text \<open>
  The \<open>while\<close> loop walks \<open>m_draw_transfers\<close> from its end to its beginning: the function is
  given the entries still to visit, nearest first, and returns \<open>skip\<close> with the state.
\<close>

fun InvalidateLocalMem_loop ::
  "GIFRegBITBLTBUF \<Rightarrow> GSVector4i \<Rightarrow> GSUploadQueue list \<Rightarrow> GSRendererHW \<Rightarrow> bool \<times> GSRendererHW" where
  "InvalidateLocalMem_loop BITBLTBUF r [] st = (False, st)"
| "InvalidateLocalMem_loop BITBLTBUF r (t # ts) st =
     (if \<not> transfer_matches BITBLTBUF r (s_n st) t then InvalidateLocalMem_loop BITBLTBUF r ts st
      else (True,
            do_call (TC_InvalidateVideoMem (GetOffset (SBP BITBLTBUF) (SBW BITBLTBUF) (SPSM BITBLTBUF)) r False True) st))"

definition InvalidateLocalMem :: "GIFRegBITBLTBUF \<Rightarrow> GSVector4i \<Rightarrow> bool \<Rightarrow> GSRendererHW \<Rightarrow> GSRendererHW" where
  "InvalidateLocalMem BITBLTBUF r clut st =
     (if clut then st
      else
        (case InvalidateLocalMem_loop BITBLTBUF r (rev (m_draw_transfers st)) st of
           (skip, st') \<Rightarrow>
             if \<not> skip then
               do_call (TC_InvalidateLocalMem (GetOffset (SBP BITBLTBUF) (SBW BITBLTBUF) (SPSM BITBLTBUF)) r) st'
             else st'))"

subsection \<open>\<open>GSRendererHW::VSync\<close>\<close>

text \<open>
  The loop over \<open>m_draw_transfers\<close> that erases the entries recorded more than five draws ago
  and steps over the others.
\<close>

fun erase_old_transfers :: "s32 \<Rightarrow> GSUploadQueue list \<Rightarrow> GSUploadQueue list" where
  "erase_old_transfers n [] = []"
| "erase_old_transfers n (t # ts) =
     (if 5 <s n - draw t then erase_old_transfers n ts else t # erase_old_transfers n ts)"

text \<open>
  \<open>usage\<close> is what \<open>m_tc->GetHashCacheMemoryUsage()\<close> returns when it is asked, after the
  base renderer's \<open>VSync\<close>; the limit \<open>1024 * 1024 * 1024\<close> is compared as a \<open>u64\<close>.
\<close>

definition VSync :: "u32 \<Rightarrow> bool \<Rightarrow> u64 \<Rightarrow> GSRendererHW \<Rightarrow> GSRendererHW" where
  "VSync field registers_written usage st =
     (let st =
            (if 0 < m_force_preload st then
               (let st = st\<lparr>m_force_preload := m_force_preload st - 1\<rparr>
                in if m_force_preload st = 0
                   then st\<lparr>m_draw_transfers := erase_old_transfers (s_n st) (m_draw_transfers st)\<rparr>
                   else st)
             else st\<lparr>m_draw_transfers := []\<rparr>);
          st = (if LoadTextureReplacements st then do_call ProcessAsyncLoadedTextures st else st);
          st = (if m_last_draw_n st = s_n st \<and> m_last_transfer_n st = s_transfer_n st then st
                else do_call TC_IncAge st);
          st = st\<lparr>m_last_draw_n := s_n st + 1\<rparr>;
          st = st\<lparr>m_last_transfer_n := s_transfer_n st\<rparr>;
          st = do_call (GSRenderer_VSync field registers_written) st;
          st =
            (if 1024 * 1024 * 1024 < usage then
               (let st = do_call (Host_AddKeyedFormattedOSDMessage usage) st;
                    st = do_call TC_RemoveAll st;
                    st = do_call Device_PurgePool st
                in st\<lparr>TexturePreloading := Partial\<rparr>)
             else st);
          st = st\<lparr>m_skip := 0\<rparr>
      in st\<lparr>m_skip_offset := 0\<rparr>)"

subsection \<open>\<open>GSRendererHW::GetOutput\<close> and \<open>GSRendererHW::GetFeedbackOutput\<close>\<close>

text \<open>What the renderer reads of a display circuit (\<open>GSPCRTCRegs::PCRTCDisplay\<close>): C ints.\<close>

record PCRTCDisplay =
  Block :: s32
  FBW :: s32
  FPSM :: s32

text \<open>
  What the two functions obtain from outside the renderer:
  the display circuits as they read once \<open>RemoveFramebufferOffset\<close> has run, the framebuffer
  size, the scale factor, the answer of the cache's \<open>LookupDisplayTarget\<close> (\<open>None\<close> for no
  target), the page height \<open>GSLocalMemory::m_psm[psm].pgs.y\<close> and the fields of the
  \<open>EXTBUF\<close> register.
\<close>

record display_env =
  PCRTCDisplays :: "s32 \<Rightarrow> PCRTCDisplay"
  GetFramebufferSize :: "s32 \<Rightarrow> GSVector2i"
  GetTextureScaleFactor :: float
  LookupDisplayTarget :: "GIFRegTEX0 \<Rightarrow> GSVector2i \<Rightarrow> float \<Rightarrow> Target option"
  pgs_y :: "s32 \<Rightarrow> s32"
  EXTBUF_FBIN :: u32
  EXTBUF_EXBP :: u32
  EXTBUF_EXBW :: u32

text \<open>C's division of two ints, which truncates towards zero.\<close>

definition int_div :: "s32 \<Rightarrow> s32 \<Rightarrow> s32" where
  "int_div a b = word_of_int (sint a sdiv sint b)"

text \<open>The \<open>TEX0\<close> each function fills in for its lookup; the assignments truncate to the bit fields.\<close>

definition GetOutput_TEX0 :: "display_env \<Rightarrow> s32 \<Rightarrow> GIFRegTEX0" where
  "GetOutput_TEX0 env i =
     (let index = (if 0 \<le>s i then i else 1);
          curFramebuffer = PCRTCDisplays env index
      in \<lparr>TBP0 = ucast (Block curFramebuffer), TBW = ucast (FBW curFramebuffer),
          PSM = ucast (FPSM curFramebuffer)\<rparr>)"

definition GetFeedbackOutput_TEX0 :: "display_env \<Rightarrow> GIFRegTEX0" where
  "GetFeedbackOutput_TEX0 env =
     (let index = EXTBUF_FBIN env AND 1
      in \<lparr>TBP0 = ucast (EXTBUF_EXBP env), TBW = ucast (EXTBUF_EXBW env),
          PSM = ucast (FPSM (PCRTCDisplays env index))\<rparr>)"

text \<open>
  \<open>scale\<close> and \<open>y_offset\<close> are reference parameters: they come in with the caller's values
  and go out with the function's. The result is the returned texture, the two references and
  the renderer. The fields of the target are read after \<open>Update\<close> has run on it.
\<close>

definition GetOutput ::
  "display_env \<Rightarrow> s32 \<Rightarrow> float \<Rightarrow> s32 \<Rightarrow> GSRendererHW \<Rightarrow> (GSTexture option \<times> float \<times> s32) \<times> GSRendererHW" where
  "GetOutput env i scale y_offset st =
     (let index = (if 0 \<le>s i then i else 1);
          curFramebuffer = PCRTCDisplays env index;
          framebufferSize = GetFramebufferSize env i;
          st = do_call (PCRTC_RemoveFramebufferOffset i) st;
          t = None;
          TEX0 = GetOutput_TEX0 env i;
          st = do_call (TC_LookupDisplayTarget TEX0 framebufferSize (GetTextureScaleFactor env)) st
      in case LookupDisplayTarget env TEX0 framebufferSize (GetTextureScaleFactor env) of
           Some rt \<Rightarrow>
             (let st = do_call (Target_Update rt False) st;
                  rt = Update False rt;
                  t = m_texture rt;
                  scale = m_scale rt;
                  delta = (ucast (TBP0 TEX0) :: s32) - ucast (TBP0 (m_TEX0 rt));
                  y_offset =
                    (if 0 <s delta \<and> FBW curFramebuffer \<noteq> 0 then
                       (let pages = signed_drop_bit 5 delta;
                            y_pages = int_div pages (FBW curFramebuffer)
                        in y_pages * pgs_y env (FPSM curFramebuffer))
                     else y_offset)
              in ((t, scale, y_offset), st))
         | None \<Rightarrow> ((t, scale, y_offset), st))"

definition GetFeedbackOutput ::
  "display_env \<Rightarrow> float \<Rightarrow> GSRendererHW \<Rightarrow> (GSTexture option \<times> float) \<times> GSRendererHW" where
  "GetFeedbackOutput env scale st =
     (let index = EXTBUF_FBIN env AND 1;
          fb_size = GetFramebufferSize env index;
          TEX0 = GetFeedbackOutput_TEX0 env;
          st = do_call (TC_LookupDisplayTarget TEX0 fb_size (GetTextureScaleFactor env)) st
      in case LookupDisplayTarget env TEX0 fb_size (GetTextureScaleFactor env) of
           None \<Rightarrow> ((None, scale), st)
         | Some rt \<Rightarrow>
             (let st = do_call (Target_Update rt False) st;
                  rt = Update False rt;
                  t = m_texture rt;
                  scale = m_scale rt
              in ((t, scale), st)))"

subsection \<open>\<open>GSRendererHW::Draw\<close>: the update of its targets and the hack that may skip the draw\<close>

text \<open>
  Two passages of \<open>Draw\<close>. By the first, \<open>Draw\<close> has looked up its render target \<open>rt\<close> and its
  depth target \<open>ds\<close> (\<open>None\<close> for \<open>nullptr\<close>), and calls \<open>Update(true)\<close> on each that is there.
\<close>

definition Draw_update_targets ::
  "Target option \<Rightarrow> Target option \<Rightarrow> GSRendererHW \<Rightarrow> (Target option \<times> Target option) \<times> GSRendererHW" where
  "Draw_update_targets rt ds st =
     (let (rt, st) = (case rt of
                        Some t \<Rightarrow> (Some (Update True t), do_call (Target_Update t True) st)
                      | None \<Rightarrow> (None, st));
          (ds, st) = (case ds of
                        Some t \<Rightarrow> (Some (Update True t), do_call (Target_Update t True) st)
                      | None \<Rightarrow> (None, st))
      in ((rt, ds), st))"

text \<open>
  The second passage comes after the targets have been resized and the dumps written, which
  neither returns nor draws, and before \<open>OI_BlitFMV\<close>, the sprite hacks and \<open>DrawPrims\<close>.
  \<open>m_oi\<close> is the hack installed for the game, \<open>None\<close> when there is none; it is given the
  textures of the two targets, and the draw is skipped when it answers false.
\<close>

datatype draw_flow = Returns | Goes_on

definition Draw_m_oi ::
  "(GSTexture option \<Rightarrow> GSTexture option \<Rightarrow> bool) option \<Rightarrow> Target option \<Rightarrow> Target option \<Rightarrow>
   GSRendererHW \<Rightarrow> draw_flow \<times> GSRendererHW" where
  "Draw_m_oi m_oi rt ds st =
     (case m_oi of
        None \<Rightarrow> (Goes_on, st)
      | Some oi \<Rightarrow>
          (let rt_tex = (case rt of Some t \<Rightarrow> m_texture t | None \<Rightarrow> None);
               ds_tex = (case ds of Some t \<Rightarrow> m_texture t | None \<Rightarrow> None);
               st = do_call (m_oi_call rt_tex ds_tex) st
           in if \<not> oi rt_tex ds_tex then (Returns, st) else (Goes_on, st)))"

section \<open>The Direct3D 11 device: \<open>GSDevice11::CreateSurface\<close>\<close>

text \<open>
  \<open>GSTexture::Type\<close>: the four enumerators the function names, and \<open>Type_Other\<close> for any
  other, which the \<open>switch\<close> sends to its default.
\<close>

datatype GSTexture_Type = Type_RenderTarget | Type_DepthStencil | Type_Texture | Type_RWTexture | Type_Other

datatype D3D11_BIND_FLAG =
    D3D11_BIND_SHADER_RESOURCE
  | D3D11_BIND_RENDER_TARGET
  | D3D11_BIND_DEPTH_STENCIL
  | D3D11_BIND_UNORDERED_ACCESS

datatype D3D11_RESOURCE_MISC_FLAG = D3D11_RESOURCE_MISC_GENERATE_MIPS

datatype D3D11_USAGE = D3D11_USAGE_DEFAULT

type_synonym Format = nat
type_synonym DXGI_FORMAT = nat
type_synonym ID3D11Texture2D = nat
type_synonym HRESULT = "32 word"

text \<open>
  The texture description. A flags field is the set of the flags that are or-ed into it; the
  fields the function leaves at zero are not listed.
\<close>

record D3D11_TEXTURE2D_DESC =
  Width :: u32
  Height :: u32
  MipLevels :: u32
  ArraySize :: u32
  DescFormat :: DXGI_FORMAT
  SampleDesc_Count :: u32
  SampleDesc_Quality :: u32
  Usage :: D3D11_USAGE
  BindFlags :: "D3D11_BIND_FLAG set"
  MiscFlags :: "D3D11_RESOURCE_MISC_FLAG set"

text \<open>What the constructor of \<open>GSTexture11\<close> is given.\<close>

record GSTexture11 =
  tex_texture :: ID3D11Texture2D
  tex_desc :: D3D11_TEXTURE2D_DESC
  tex_type :: GSTexture_Type
  tex_format :: Format

text \<open>
  What is defined outside the device: the format table, the test for compressed formats and the
  Direct3D call, which answers with an \<open>HRESULT\<close> and the texture it has put.
\<close>

record d3d_env =
  GetDXGIFormat :: "Format \<Rightarrow> DXGI_FORMAT"
  IsCompressedFormat :: "Format \<Rightarrow> bool"
  CreateTexture2D :: "D3D11_TEXTURE2D_DESC \<Rightarrow> HRESULT \<times> ID3D11Texture2D"

record GSDevice11 =
  m_d3d_texsize :: s32

text \<open>The exception the function throws.\<close>

datatype exn = std_bad_alloc

text \<open>\<open>std::clamp\<close> on ints.\<close>

definition clamp :: "s32 \<Rightarrow> s32 \<Rightarrow> s32 \<Rightarrow> s32" where
  "clamp v lo hi = (if v <s lo then lo else if hi <s v then hi else v)"

text \<open>The macros \<open>SUCCEEDED\<close> and \<open>FAILED\<close>: the sign of the \<open>HRESULT\<close>.\<close>

definition SUCCEEDED :: "HRESULT \<Rightarrow> bool" where
  "SUCCEEDED hr \<longleftrightarrow> 0 \<le>s hr"

definition FAILED :: "HRESULT \<Rightarrow> bool" where
  "FAILED hr \<longleftrightarrow> hr <s 0"

text \<open>The description the function fills in before it calls Direct3D.\<close>

definition CreateSurface_desc ::
  "d3d_env \<Rightarrow> GSDevice11 \<Rightarrow> GSTexture_Type \<Rightarrow> s32 \<Rightarrow> s32 \<Rightarrow> s32 \<Rightarrow> Format \<Rightarrow> D3D11_TEXTURE2D_DESC" where
  "CreateSurface_desc env dev type width height levels format =
     (let desc = \<lparr>Width = clamp width 1 (m_d3d_texsize dev),
                  Height = clamp height 1 (m_d3d_texsize dev),
                  MipLevels = levels,
                  ArraySize = 1,
                  DescFormat = GetDXGIFormat env format,
                  SampleDesc_Count = 1,
                  SampleDesc_Quality = 0,
                  Usage = D3D11_USAGE_DEFAULT,
                  BindFlags = {},
                  MiscFlags = {}\<rparr>
      in case type of
           Type_RenderTarget \<Rightarrow>
             desc\<lparr>BindFlags := {D3D11_BIND_RENDER_TARGET, D3D11_BIND_SHADER_RESOURCE}\<rparr>
         | Type_DepthStencil \<Rightarrow>
             desc\<lparr>BindFlags := {D3D11_BIND_DEPTH_STENCIL, D3D11_BIND_SHADER_RESOURCE}\<rparr>
         | Type_Texture \<Rightarrow>
             desc\<lparr>BindFlags :=
                    (if 1 <s levels \<and> \<not> IsCompressedFormat env format
                     then {D3D11_BIND_RENDER_TARGET, D3D11_BIND_SHADER_RESOURCE}
                     else {D3D11_BIND_SHADER_RESOURCE}),
                  MiscFlags :=
                    (if 1 <s levels \<and> \<not> IsCompressedFormat env format
                     then {D3D11_RESOURCE_MISC_GENERATE_MIPS} else {})\<rparr>
         | Type_RWTexture \<Rightarrow>
             desc\<lparr>BindFlags := {D3D11_BIND_UNORDERED_ACCESS, D3D11_BIND_SHADER_RESOURCE}\<rparr>
         | Type_Other \<Rightarrow> desc)"

text \<open>
  The function returns a \<open>GSTexture*\<close>, \<open>None\<close> for \<open>nullptr\<close>, or throws: \<open>Inl\<close> is the
  exception. The local \<open>t\<close> starts as \<open>nullptr\<close>.
\<close>

definition CreateSurface ::
  "d3d_env \<Rightarrow> GSDevice11 \<Rightarrow> GSTexture_Type \<Rightarrow> s32 \<Rightarrow> s32 \<Rightarrow> s32 \<Rightarrow> Format \<Rightarrow> exn + GSTexture11 option" where
  "CreateSurface env dev type width height levels format =
     (let desc = CreateSurface_desc env dev type width height levels format;
          t = (None :: GSTexture11 option);
          (hr, texture) = CreateTexture2D env desc
      in if SUCCEEDED hr then
           (let t = Some \<lparr>tex_texture = texture, tex_desc = desc, tex_type = type, tex_format = format\<rparr>
            in Inr t)
         else Inl std_bad_alloc)"

section \<open>Concrete inputs\<close>

text \<open>
  A readback of 640 by 448 pixels from block \<open>0x500\<close>, and a renderer at draw 7 that has
  recorded, for this very draw, an upload of the same rectangle to the same block in the same
  format. No draw or transfer has happened since the last \<open>VSync\<close>, and no call has been
  recorded yet.
\<close>

definition ex_rect :: GSVector4i where
  "ex_rect = \<lparr>vx = 0, vy = 0, vz = 640, vw = 448\<rparr>"

definition ex_BITBLTBUF :: GIFRegBITBLTBUF where
  "ex_BITBLTBUF = \<lparr>SBP = 0x500, SBW = 10, SPSM = 0, DBP = 0, DBW = 10, DPSM = 0\<rparr>"

definition ex_transfer :: GSUploadQueue where
  "ex_transfer = \<lparr>blit = \<lparr>SBP = 0, SBW = 10, SPSM = 0, DBP = 0x500, DBW = 10, DPSM = 0\<rparr>,
                   rect = ex_rect, draw = 7\<rparr>"

definition ex_renderer :: GSRendererHW where
  "ex_renderer = \<lparr>m_force_preload = 0, m_draw_transfers = [ex_transfer], s_n = 7, s_transfer_n = 3,
                   m_last_draw_n = 7, m_last_transfer_n = 3, m_skip = 0, m_skip_offset = 0,
                   LoadTextureReplacements = False, TexturePreloading = Full, calls = []\<rparr>"

text \<open>
  A target at block \<open>0x500\<close> with one pending dirty rectangle, and the surroundings of the two
  display functions: circuit 0 shows block \<open>0x500\<close>, circuit 1 block \<open>0x900\<close>; the cache
  answers a lookup at block \<open>0x500\<close> with the target and any other with nothing; the
  feedback write is set up at block \<open>0x100\<close>.
\<close>

definition ex_target :: Target where
  "ex_target = \<lparr>m_texture = Some 42, m_TEX0 = \<lparr>TBP0 = 0x500, TBW = 10, PSM = 0\<rparr>,
                 m_unscaled_size = \<lparr>v2x = 640, v2y = 448\<rparr>, m_scale = 0x40000000, m_age = 3,
                 m_end_block = 0x13ff, m_32_bits_fmt = True, m_shared_texture = False,
                 m_type = 0, m_is_frame = True, m_used = True, m_dirty = [ex_rect],
                 m_valid = ex_rect, m_valid_bits = 0xFFFFFFFF\<rparr>"

definition ex_display_env :: display_env where
  "ex_display_env =
     \<lparr>PCRTCDisplays = (\<lambda>i. if i = 0 then \<lparr>Block = 0x500, FBW = 10, FPSM = 0\<rparr>
                            else \<lparr>Block = 0x900, FBW = 10, FPSM = 0\<rparr>),
      GetFramebufferSize = (\<lambda>i. \<lparr>v2x = 640, v2y = 448\<rparr>),
      GetTextureScaleFactor = 0x40000000,
      LookupDisplayTarget = (\<lambda>TEX0 size scale. if TBP0 TEX0 = 0x500 then Some ex_target else None),
      pgs_y = (\<lambda>psm. 32),
      EXTBUF_FBIN = 0,
      EXTBUF_EXBP = 0x100,
      EXTBUF_EXBW = 10\<rparr>"

text \<open>A hack that skips every draw it is asked about.\<close>

definition ex_m_oi :: "GSTexture option \<Rightarrow> GSTexture option \<Rightarrow> bool" where
  "ex_m_oi rt_tex ds_tex = False"

text \<open>The same target moved to the top of the memory, so that it ends past block \<open>0x3fff\<close>.\<close>

definition ex_wrapping_target :: Target where
  "ex_wrapping_target = ex_target\<lparr>m_TEX0 := \<lparr>TBP0 = 0x3f00, TBW = 10, PSM = 0\<rparr>, m_end_block := 0xff\<rparr>"

text \<open>
  A device, and two answers of Direct3D: out of memory (\<open>E_OUTOFMEMORY\<close>) and success
  (\<open>S_OK\<close>) with texture 7.
\<close>

definition ex_device :: GSDevice11 where
  "ex_device = \<lparr>m_d3d_texsize = 16384\<rparr>"

definition ex_d3d_out_of_memory :: d3d_env where
  "ex_d3d_out_of_memory =
     \<lparr>GetDXGIFormat = (\<lambda>f. f), IsCompressedFormat = (\<lambda>f. False),
      CreateTexture2D = (\<lambda>desc. (0x8007000E, 0))\<rparr>"

definition ex_d3d_ok :: d3d_env where
  "ex_d3d_ok =
     \<lparr>GetDXGIFormat = (\<lambda>f. f), IsCompressedFormat = (\<lambda>f. False),
      CreateTexture2D = (\<lambda>desc. (0, 7))\<rparr>"

section \<open>Properties\<close>

lemma calls_do_call: "calls (do_call c st) = calls st @ [c]"
  by (simp add: do_call_def)

subsection \<open>The readback entry point\<close>

lemma InvalidateLocalMem_loop_no_match:
  "\<forall>t \<in> set ts. \<not> transfer_matches B r (s_n st) t \<Longrightarrow> InvalidateLocalMem_loop B r ts st = (False, st)"
  by (induction ts) simp_all

lemma InvalidateLocalMem_loop_match:
  "\<exists>t \<in> set ts. transfer_matches B r (s_n st) t \<Longrightarrow>
   InvalidateLocalMem_loop B r ts st =
     (True, do_call (TC_InvalidateVideoMem (GetOffset (SBP B) (SBW B) (SPSM B)) r False True) st)"
  by (induction ts) auto

text \<open>
  C9. A call of \<open>InvalidateLocalMem\<close> with the \<open>clut\<close> flag set returns at once: the renderer's
  state is the one it was given, and no call at all has been made on the texture cache, so no
  source is destroyed and no dirty list is touched.
\<close>

theorem InvalidateLocalMem_clut_returns:
  "InvalidateLocalMem BITBLTBUF r True st = st"
  by (simp add: InvalidateLocalMem_def)

text \<open>
  C1, as the specification states it, fails. The renderer below has recorded, for the current
  draw, a transfer to the readback's block, in its format, over its rectangle; the readback is
  not a no-op, for it calls the cache's \<open>InvalidateVideoMem\<close> over that rectangle.
\<close>

theorem InvalidateLocalMem_recorded_transfer_counterexample:
  "m_draw_transfers ex_renderer = [ex_transfer] \<and>
   transfer_matches ex_BITBLTBUF ex_rect (s_n ex_renderer) ex_transfer \<and>
   calls ex_renderer = [] \<and>
   calls (InvalidateLocalMem ex_BITBLTBUF ex_rect False ex_renderer) =
     [TC_InvalidateVideoMem (GetOffset 0x500 10 0) ex_rect False True] \<and>
   InvalidateLocalMem ex_BITBLTBUF ex_rect False ex_renderer \<noteq> ex_renderer"
  by (simp add: InvalidateLocalMem_def transfer_matches_def eq_def do_call_def
      ex_renderer_def ex_transfer_def ex_BITBLTBUF_def ex_rect_def)

text \<open>
  C1, amended. When a transfer recorded for the current draw index has the readback's block
  pointer as its destination, the readback's format as its destination format and the
  readback's rectangle, a call of \<open>InvalidateLocalMem\<close> (without the \<open>clut\<close> flag) does not
  call the cache's \<open>InvalidateLocalMem\<close>: it makes exactly one call on the cache, its
  \<open>InvalidateVideoMem\<close> over the same offset and rectangle with the default flags, and
  changes nothing else of the renderer.
\<close>

theorem InvalidateLocalMem_recorded_transfer:
  assumes "t \<in> set (m_draw_transfers st)"
    and "transfer_matches BITBLTBUF r (s_n st) t"
  shows "InvalidateLocalMem BITBLTBUF r False st =
           st\<lparr>calls := calls st @
             [TC_InvalidateVideoMem (GetOffset (SBP BITBLTBUF) (SBW BITBLTBUF) (SPSM BITBLTBUF)) r False True]\<rparr>"
proof -
  from assms have "\<exists>t \<in> set (rev (m_draw_transfers st)). transfer_matches BITBLTBUF r (s_n st) t"
    by auto
  then show ?thesis
    by (simp add: InvalidateLocalMem_def InvalidateLocalMem_loop_match do_call_def)
qed

theorem InvalidateLocalMem_recorded_transfer_witness:
  "ex_transfer \<in> set (m_draw_transfers ex_renderer) \<and>
   transfer_matches ex_BITBLTBUF ex_rect (s_n ex_renderer) ex_transfer \<and>
   InvalidateLocalMem ex_BITBLTBUF ex_rect False ex_renderer =
     ex_renderer\<lparr>calls := [TC_InvalidateVideoMem (GetOffset 0x500 10 0) ex_rect False True]\<rparr>"
proof -
  have m: "ex_transfer \<in> set (m_draw_transfers ex_renderer)"
    by (simp add: ex_renderer_def)
  have t: "transfer_matches ex_BITBLTBUF ex_rect (s_n ex_renderer) ex_transfer"
    by (simp add: transfer_matches_def eq_def ex_renderer_def ex_transfer_def ex_BITBLTBUF_def)
  have c: "calls ex_renderer = []" by (simp add: ex_renderer_def)
  have b: "GetOffset (SBP ex_BITBLTBUF) (SBW ex_BITBLTBUF) (SPSM ex_BITBLTBUF) = GetOffset 0x500 10 0"
    by (simp add: ex_BITBLTBUF_def)
  from InvalidateLocalMem_recorded_transfer [OF m t] m t show ?thesis
    by (simp add: c b)
qed

text \<open>
  When no recorded transfer matches, the readback goes to the cache's own \<open>InvalidateLocalMem\<close>.
\<close>

lemma InvalidateLocalMem_no_recorded_transfer:
  assumes "\<forall>t \<in> set (m_draw_transfers st). \<not> transfer_matches BITBLTBUF r (s_n st) t"
  shows "InvalidateLocalMem BITBLTBUF r False st =
           st\<lparr>calls := calls st @
             [TC_InvalidateLocalMem (GetOffset (SBP BITBLTBUF) (SBW BITBLTBUF) (SPSM BITBLTBUF)) r]\<rparr>"
proof -
  from assms have "\<forall>t \<in> set (rev (m_draw_transfers st)). \<not> transfer_matches BITBLTBUF r (s_n st) t"
    by auto
  then show ?thesis
    by (simp add: InvalidateLocalMem_def InvalidateLocalMem_loop_no_match do_call_def)
qed

subsection \<open>The write entry point\<close>

text \<open>
  The calls \<open>InvalidateVideoMem\<close> makes on the cache. When the bottom and the right of the
  rectangle are both at most 2048 there is one, with the rectangle as given. Otherwise there
  are two, with the same offset: the first with the rectangle clamped to 2048 at its bottom and
  its right, the second starting at 0 in each dimension that went past 2048. The far edges of
  the second rectangle are both computed from the bottom \<open>vw r\<close>.
\<close>

lemma InvalidateVideoMem_split:
  "InvalidateVideoMem BITBLTBUF r eewrite st =
     st\<lparr>calls := calls st @
       (if vw r \<le>s 2048 \<and> vz r \<le>s 2048 then
          [TC_InvalidateVideoMem (GetOffset (DBP BITBLTBUF) (DBW BITBLTBUF) (DPSM BITBLTBUF)) r eewrite True]
        else
          [TC_InvalidateVideoMem (GetOffset (DBP BITBLTBUF) (DBW BITBLTBUF) (DPSM BITBLTBUF))
             (r\<lparr>vz := if 2048 <s vz r then 2048 else vz r,
                vw := if 2048 <s vw r then 2048 else vw r\<rparr>) eewrite True,
           TC_InvalidateVideoMem (GetOffset (DBP BITBLTBUF) (DBW BITBLTBUF) (DPSM BITBLTBUF))
             (r\<lparr>vx := if 2048 <s vz r then 0 else vx r,
                vy := if 2048 <s vw r then 0 else vy r,
                vz := if 2048 <s vz r then vw r - 2048 else vz r,
                vw := if 2048 <s vw r then vw r - 2048 else vw r\<rparr>) eewrite True])\<rparr>"
proof -
  have h: "vw r \<le>s 2048 \<longleftrightarrow> \<not> 2048 <s vw r" by (simp add: signed.not_less)
  have w: "vz r \<le>s 2048 \<longleftrightarrow> \<not> 2048 <s vz r" by (simp add: signed.not_less)
  show ?thesis
    unfolding h w
    by (cases "2048 <s vw r"; cases "2048 <s vz r")
       (simp_all add: InvalidateVideoMem_def do_call_def Let_def)
qed

text \<open>
  C10 holds of a rectangle within the border and of one that goes past it at the bottom, and
  fails of one that goes past it at the right. For the rectangle from 16, 32 to 2304, 448 the
  second call should cover the columns 0 to 256 that lie past the border, as the second call
  for the rectangle from 16, 32 to 640, 2148 covers the rows 0 to 100. The code takes the right
  edge from the bottom: the second rectangle runs from column 0 to column \<open>448 - 2048\<close>, which
  is not the wrapped rectangle.
\<close>

theorem InvalidateVideoMem_right_edge_from_bottom:
  "calls (InvalidateVideoMem ex_BITBLTBUF \<lparr>vx = 16, vy = 32, vz = 640, vw = 2148\<rparr> True ex_renderer) =
     [TC_InvalidateVideoMem (GetOffset 0 10 0) \<lparr>vx = 16, vy = 32, vz = 640, vw = 2048\<rparr> True True,
      TC_InvalidateVideoMem (GetOffset 0 10 0) \<lparr>vx = 16, vy = 0, vz = 640, vw = 100\<rparr> True True] \<and>
   calls (InvalidateVideoMem ex_BITBLTBUF \<lparr>vx = 16, vy = 32, vz = 2304, vw = 448\<rparr> True ex_renderer) =
     [TC_InvalidateVideoMem (GetOffset 0 10 0) \<lparr>vx = 16, vy = 32, vz = 2048, vw = 448\<rparr> True True,
      TC_InvalidateVideoMem (GetOffset 0 10 0) \<lparr>vx = 0, vy = 32, vz = - 1600, vw = 448\<rparr> True True] \<and>
   calls (InvalidateVideoMem ex_BITBLTBUF \<lparr>vx = 16, vy = 32, vz = 2304, vw = 448\<rparr> True ex_renderer) \<noteq>
     [TC_InvalidateVideoMem (GetOffset 0 10 0) \<lparr>vx = 16, vy = 32, vz = 2048, vw = 448\<rparr> True True,
      TC_InvalidateVideoMem (GetOffset 0 10 0) \<lparr>vx = 0, vy = 32, vz = 2304 - 2048, vw = 448\<rparr> True True]"
  by (simp add: InvalidateVideoMem_split ex_BITBLTBUF_def ex_renderer_def)

subsection \<open>Surfaces\<close>

lemma unat_ucast_TBP0: "unat (ucast (x :: 14 word) :: 32 word) < 16384"
proof -
  have "unat (ucast x :: 32 word) = unat x"
    by (simp add: unsigned_ucast_eq take_bit_nat_eq_self_iff unsigned_less[THEN less_trans])
  moreover have "unat x < 2 ^ LENGTH(14)" by (rule unsigned_less)
  ultimately show ?thesis by simp
qed

text \<open>
  C6. For every surface, \<open>Wraps\<close> holds exactly when \<open>m_end_block\<close> is below the block pointer
  \<open>TBP0\<close>; the unwrapped end block is \<open>m_end_block\<close> plus the size of the address space when
  the surface wraps and \<open>m_end_block\<close> otherwise; the sum does not overflow 32 bits; and the
  unwrapped end block is never below \<open>TBP0\<close>.
\<close>

theorem Surface_UnwrappedEndBlock: "(Wraps s \<longleftrightarrow> m_end_block s < ucast (TBP0 (m_TEX0 s))) \<and>
   UnwrappedEndBlock s = (if Wraps s then m_end_block s + MAX_BLOCKS else m_end_block s) \<and>
   unat (UnwrappedEndBlock s) = unat (m_end_block s) + (if Wraps s then 16384 else 0) \<and>
   ucast (TBP0 (m_TEX0 s)) \<le> UnwrappedEndBlock s"
proof -
  let ?bp = "ucast (TBP0 (m_TEX0 s)) :: u32"
  have bp: "unat ?bp < 16384" by (rule unat_ucast_TBP0)
  have w: "Wraps s \<longleftrightarrow> m_end_block s < ?bp" by (simp add: Wraps_def)
  have u: "UnwrappedEndBlock s = (if Wraps s then m_end_block s + MAX_BLOCKS else m_end_block s)"
    by (simp add: UnwrappedEndBlock_def)
  have n: "unat (UnwrappedEndBlock s) = unat (m_end_block s) + (if Wraps s then 16384 else 0)
           \<and> ?bp \<le> UnwrappedEndBlock s"
  proof (cases "Wraps s")
    case True
    then have "unat (m_end_block s) < unat ?bp" by (simp add: w word_less_nat_alt)
    with bp have "unat (m_end_block s) + 16384 < 4294967296" by simp
    then have "unat (m_end_block s + 16384) = unat (m_end_block s) + 16384"
      by (simp add: unat_word_ariths)
    with True bp show ?thesis
      by (simp add: u MAX_BLOCKS_def word_le_nat_alt)
  next
    case False
    then have "?bp \<le> m_end_block s" by (simp add: w not_less)
    with False show ?thesis by (simp add: u)
  qed
  from w u n show ?thesis by blast
qed

text \<open>A surface that wraps and one that does not.\<close>

theorem Surface_UnwrappedEndBlock_witness:
  "Wraps ex_wrapping_target \<and>
   UnwrappedEndBlock ex_wrapping_target = 0x40ff \<and>
   (0x3f00 :: u32) \<le> UnwrappedEndBlock ex_wrapping_target \<and>
   \<not> Wraps ex_target \<and>
   UnwrappedEndBlock ex_target = 0x13ff \<and>
   (0x500 :: u32) \<le> UnwrappedEndBlock ex_target"
proof -
  have a: "m_end_block ex_wrapping_target = 0xff" "TBP0 (m_TEX0 ex_wrapping_target) = 0x3f00"
    by (simp_all add: ex_wrapping_target_def)
  have b: "m_end_block ex_target = 0x13ff" "TBP0 (m_TEX0 ex_target) = 0x500"
    by (simp_all add: ex_target_def)
  from Surface_UnwrappedEndBlock [of ex_wrapping_target]
  have 1: "Wraps ex_wrapping_target \<and> UnwrappedEndBlock ex_wrapping_target = 0x40ff \<and>
           (0x3f00 :: u32) \<le> UnwrappedEndBlock ex_wrapping_target"
    by (simp add: a MAX_BLOCKS_def)
  from Surface_UnwrappedEndBlock [of ex_target]
  have 2: "\<not> Wraps ex_target \<and> UnwrappedEndBlock ex_target = 0x13ff \<and>
           (0x500 :: u32) \<le> UnwrappedEndBlock ex_target"
    by (simp add: b)
  from 1 2 show ?thesis by blast
qed

text \<open>
  \<open>CheckOverlap\<close> does not depend on the order of the two ranges, and it holds exactly when
  the two ranges, each with its start at or below its end, have a block in common.
\<close>

lemma CheckOverlap_commute:
  "CheckOverlap a_bp a_bp_end b_bp b_bp_end = CheckOverlap b_bp b_bp_end a_bp a_bp_end"
  by (auto simp: CheckOverlap_def)

lemma CheckOverlap_iff_common_block:
  "CheckOverlap a_bp a_bp_end b_bp b_bp_end \<longleftrightarrow>
     (\<exists>bp. a_bp \<le> bp \<and> bp \<le> a_bp_end \<and> b_bp \<le> bp \<and> bp \<le> b_bp_end)"
proof
  assume c: "CheckOverlap a_bp a_bp_end b_bp b_bp_end"
  then have "a_bp \<le> max a_bp b_bp \<and> max a_bp b_bp \<le> a_bp_end \<and>
             b_bp \<le> max a_bp b_bp \<and> max a_bp b_bp \<le> b_bp_end"
    by (auto simp: CheckOverlap_def)
  then show "\<exists>bp. a_bp \<le> bp \<and> bp \<le> a_bp_end \<and> b_bp \<le> bp \<and> bp \<le> b_bp_end" by blast
next
  assume "\<exists>bp. a_bp \<le> bp \<and> bp \<le> a_bp_end \<and> b_bp \<le> bp \<and> bp \<le> b_bp_end"
  then show "CheckOverlap a_bp a_bp_end b_bp b_bp_end"
    by (auto simp: CheckOverlap_def)
qed

subsection \<open>The frame tick\<close>

text \<open>The calls \<open>VSync\<close> makes, in order, and what it leaves of the preloading level.\<close>

lemma VSync_calls:
  "calls (VSync field registers_written usage st) =
     calls st @
     (if LoadTextureReplacements st then [ProcessAsyncLoadedTextures] else []) @
     (if m_last_draw_n st = s_n st \<and> m_last_transfer_n st = s_transfer_n st then [] else [TC_IncAge]) @
     [GSRenderer_VSync field registers_written] @
     (if 1024 * 1024 * 1024 < usage
      then [Host_AddKeyedFormattedOSDMessage usage, TC_RemoveAll, Device_PurgePool] else [])"
  by (simp add: VSync_def do_call_def Let_def)

lemma VSync_TexturePreloading:
  "TexturePreloading (VSync field registers_written usage st) =
     (if 1024 * 1024 * 1024 < usage then Partial else TexturePreloading st)"
  by (simp add: VSync_def do_call_def Let_def)

text \<open>
  C3, as the specification states it, fails. The renderer below has seen no draw and no
  transfer since the last \<open>VSync\<close>: the tick calls the base renderer and nothing else, so
  \<open>IncAge\<close> is not invoked.
\<close>

theorem VSync_IncAge_counterexample:
  "m_last_draw_n ex_renderer = s_n ex_renderer \<and>
   m_last_transfer_n ex_renderer = s_transfer_n ex_renderer \<and>
   calls ex_renderer = [] \<and>
   calls (VSync 0 False 0 ex_renderer) = [GSRenderer_VSync 0 False] \<and>
   TC_IncAge \<notin> set (calls (VSync 0 False 0 ex_renderer))"
  by (simp add: VSync_def do_call_def Let_def ex_renderer_def)

text \<open>
  C3, amended. Among the calls one \<open>VSync\<close> makes, the cache's \<open>IncAge\<close> occurs exactly once
  when a draw or a transfer has happened since the last \<open>VSync\<close> (\<open>m_last_draw_n\<close> differs
  from \<open>s_n\<close>, or \<open>m_last_transfer_n\<close> from \<open>s_transfer_n\<close>), and not at all when neither
  has.
\<close>

theorem VSync_IncAge:
  "calls (VSync field registers_written usage st) =
     calls st @ calls_made st (VSync field registers_written usage st) \<and>
   count_list (calls_made st (VSync field registers_written usage st)) TC_IncAge =
     (if m_last_draw_n st = s_n st \<and> m_last_transfer_n st = s_transfer_n st then 0 else 1)"
  by (simp add: calls_made_def VSync_calls)

theorem VSync_IncAge_witness:
  "count_list (calls_made ex_renderer (VSync 0 False 0 ex_renderer)) TC_IncAge = 0 \<and>
   count_list (calls_made (ex_renderer\<lparr>s_n := 8\<rparr>) (VSync 0 False 0 (ex_renderer\<lparr>s_n := 8\<rparr>))) TC_IncAge = 1 \<and>
   count_list (calls_made (ex_renderer\<lparr>s_transfer_n := 4\<rparr>)
                 (VSync 0 False 0 (ex_renderer\<lparr>s_transfer_n := 4\<rparr>))) TC_IncAge = 1"
  using VSync_IncAge [of 0 False 0 ex_renderer]
    VSync_IncAge [of 0 False 0 "ex_renderer\<lparr>s_n := 8\<rparr>"]
    VSync_IncAge [of 0 False 0 "ex_renderer\<lparr>s_transfer_n := 4\<rparr>"]
  by (simp add: ex_renderer_def)

text \<open>
  C5, as the specification states it, fails. With a hash cache of one byte more than
  \<open>1024 * 1024 * 1024\<close>, the tick does not evict entries of the hash cache: it reports the
  overflow, calls \<open>RemoveAll\<close> on the whole texture cache, purges the device's pool and lowers
  the preloading level from full to partial.
\<close>

theorem VSync_hash_cache_counterexample:
  "calls ex_renderer = [] \<and>
   calls (VSync 0 False 1073741825 ex_renderer) =
     [GSRenderer_VSync 0 False, Host_AddKeyedFormattedOSDMessage 1073741825, TC_RemoveAll,
      Device_PurgePool] \<and>
   TexturePreloading ex_renderer = Full \<and>
   TexturePreloading (VSync 0 False 1073741825 ex_renderer) = Partial"
  by (simp add: VSync_def do_call_def Let_def ex_renderer_def)

text \<open>
  C5, amended. When the memory use of the hash cache, as read at a \<open>VSync\<close>, exceeds
  \<open>1024 * 1024 * 1024\<close> bytes, the last three calls of the tick are the report to the host,
  \<open>RemoveAll\<close> on the texture cache and the purge of the device's pool, \<open>RemoveAll\<close> is called
  nowhere before them, and the preloading level becomes partial. When the use is at most that
  limit, the tick does not call \<open>RemoveAll\<close> and leaves the preloading level.
\<close>

theorem VSync_hash_cache_overflow:
  "(1024 * 1024 * 1024 < usage \<longrightarrow>
      (\<exists>before. calls (VSync field registers_written usage st) =
         calls st @ before @ [Host_AddKeyedFormattedOSDMessage usage, TC_RemoveAll, Device_PurgePool] \<and>
         TC_RemoveAll \<notin> set before) \<and>
      TexturePreloading (VSync field registers_written usage st) = Partial) \<and>
   (usage \<le> 1024 * 1024 * 1024 \<longrightarrow>
      TC_RemoveAll \<notin> set (calls_made st (VSync field registers_written usage st)) \<and>
      TexturePreloading (VSync field registers_written usage st) = TexturePreloading st)"
proof (intro conjI impI)
  assume u: "1024 * 1024 * 1024 < usage"
  let ?before = "(if LoadTextureReplacements st then [ProcessAsyncLoadedTextures] else []) @
     (if m_last_draw_n st = s_n st \<and> m_last_transfer_n st = s_transfer_n st then [] else [TC_IncAge]) @
     [GSRenderer_VSync field registers_written]"
  have "calls (VSync field registers_written usage st) =
         calls st @ ?before @ [Host_AddKeyedFormattedOSDMessage usage, TC_RemoveAll, Device_PurgePool]"
    using u by (simp add: VSync_calls)
  moreover have "TC_RemoveAll \<notin> set ?before" by simp
  ultimately show "\<exists>before. calls (VSync field registers_written usage st) =
         calls st @ before @ [Host_AddKeyedFormattedOSDMessage usage, TC_RemoveAll, Device_PurgePool] \<and>
         TC_RemoveAll \<notin> set before" by blast
  from u show "TexturePreloading (VSync field registers_written usage st) = Partial"
    by (simp add: VSync_TexturePreloading)
next
  assume u: "usage \<le> 1024 * 1024 * 1024"
  then have n: "\<not> 1024 * 1024 * 1024 < usage" by simp
  from n show "TC_RemoveAll \<notin> set (calls_made st (VSync field registers_written usage st))"
    by (simp add: calls_made_def VSync_calls)
  from n show "TexturePreloading (VSync field registers_written usage st) = TexturePreloading st"
    by (simp add: VSync_TexturePreloading)
qed

theorem VSync_hash_cache_overflow_witness:
  "(1024 * 1024 * 1024 :: u64) < 1073741825 \<and>
   calls (VSync 0 False 1073741825 ex_renderer) =
     [GSRenderer_VSync 0 False, Host_AddKeyedFormattedOSDMessage 1073741825, TC_RemoveAll, Device_PurgePool] \<and>
   TexturePreloading (VSync 0 False 1073741825 ex_renderer) = Partial \<and>
   (1073741824 :: u64) \<le> 1024 * 1024 * 1024 \<and>
   TC_RemoveAll \<notin> set (calls_made ex_renderer (VSync 0 False 1073741824 ex_renderer)) \<and>
   TexturePreloading (VSync 0 False 1073741824 ex_renderer) = Full"
proof -
  have a: "(1024 * 1024 * 1024 :: u64) < 1073741825" by simp
  have b: "(1073741824 :: u64) \<le> 1024 * 1024 * 1024" by simp
  have c: "calls ex_renderer = []" "TexturePreloading ex_renderer = Full"
    "LoadTextureReplacements ex_renderer = False"
    "m_last_draw_n ex_renderer = s_n ex_renderer" "m_last_transfer_n ex_renderer = s_transfer_n ex_renderer"
    by (simp_all add: ex_renderer_def)
  from VSync_hash_cache_overflow [of 1073741825 0 False ex_renderer] a
  obtain before where
    1: "calls (VSync 0 False 1073741825 ex_renderer) =
         calls ex_renderer @ before @ [Host_AddKeyedFormattedOSDMessage 1073741825, TC_RemoveAll, Device_PurgePool]"
    and 2: "TexturePreloading (VSync 0 False 1073741825 ex_renderer) = Partial"
    by blast
  have 3: "calls (VSync 0 False 1073741825 ex_renderer) =
     [GSRenderer_VSync 0 False, Host_AddKeyedFormattedOSDMessage 1073741825, TC_RemoveAll, Device_PurgePool]"
    by (simp add: VSync_calls c)
  from VSync_hash_cache_overflow [of 1073741824 0 False ex_renderer] b
  have 4: "TC_RemoveAll \<notin> set (calls_made ex_renderer (VSync 0 False 1073741824 ex_renderer))"
    and 5: "TexturePreloading (VSync 0 False 1073741824 ex_renderer) = TexturePreloading ex_renderer"
    by blast+
  from a b 2 3 4 5 c show ?thesis by simp
qed

subsection \<open>The display outputs\<close>

lemma GetOutput_found:
  assumes "LookupDisplayTarget env (GetOutput_TEX0 env i) (GetFramebufferSize env i) (GetTextureScaleFactor env) = Some rt"
  shows "calls (snd (GetOutput env i scale y_offset st)) =
           calls st @ [PCRTC_RemoveFramebufferOffset i,
                       TC_LookupDisplayTarget (GetOutput_TEX0 env i) (GetFramebufferSize env i) (GetTextureScaleFactor env),
                       Target_Update rt False]"
    and "fst (fst (GetOutput env i scale y_offset st)) = m_texture (Update False rt)"
    and "fst (snd (fst (GetOutput env i scale y_offset st))) = m_scale (Update False rt)"
  using assms by (simp_all add: GetOutput_def Let_def calls_do_call)

lemma GetOutput_not_found:
  assumes "LookupDisplayTarget env (GetOutput_TEX0 env i) (GetFramebufferSize env i) (GetTextureScaleFactor env) = None"
  shows "calls (snd (GetOutput env i scale y_offset st)) =
           calls st @ [PCRTC_RemoveFramebufferOffset i,
                       TC_LookupDisplayTarget (GetOutput_TEX0 env i) (GetFramebufferSize env i) (GetTextureScaleFactor env)]"
    and "fst (GetOutput env i scale y_offset st) = (None, scale, y_offset)"
  using assms by (simp_all add: GetOutput_def Let_def calls_do_call)

lemma GetFeedbackOutput_found:
  assumes "LookupDisplayTarget env (GetFeedbackOutput_TEX0 env) (GetFramebufferSize env (EXTBUF_FBIN env AND 1))
             (GetTextureScaleFactor env) = Some rt"
  shows "calls (snd (GetFeedbackOutput env scale st)) =
           calls st @ [TC_LookupDisplayTarget (GetFeedbackOutput_TEX0 env) (GetFramebufferSize env (EXTBUF_FBIN env AND 1))
                         (GetTextureScaleFactor env),
                       Target_Update rt False]"
    and "fst (GetFeedbackOutput env scale st) = (m_texture (Update False rt), m_scale (Update False rt))"
  using assms by (simp_all add: GetFeedbackOutput_def Let_def calls_do_call)

lemma GetFeedbackOutput_not_found:
  assumes "LookupDisplayTarget env (GetFeedbackOutput_TEX0 env) (GetFramebufferSize env (EXTBUF_FBIN env AND 1))
             (GetTextureScaleFactor env) = None"
  shows "calls (snd (GetFeedbackOutput env scale st)) =
           calls st @ [TC_LookupDisplayTarget (GetFeedbackOutput_TEX0 env) (GetFramebufferSize env (EXTBUF_FBIN env AND 1))
                         (GetTextureScaleFactor env)]"
    and "fst (GetFeedbackOutput env scale st) = (None, scale)"
  using assms by (simp_all add: GetFeedbackOutput_def Let_def calls_do_call)

lemma Draw_update_targets_calls:
  "calls (snd (Draw_update_targets rt ds st)) =
     calls st @ (case rt of Some t \<Rightarrow> [Target_Update t True] | None \<Rightarrow> []) @
                (case ds of Some t \<Rightarrow> [Target_Update t True] | None \<Rightarrow> [])"
  by (simp add: Draw_update_targets_def calls_do_call split: option.split)

text \<open>
  C7, as the specification states it, fails in its second half. \<open>Draw\<close> calls \<open>Update\<close> on its
  render target, here a target with a pending dirty rectangle, whose queue is flushed; the
  hack installed for the game then answers false and \<open>Draw\<close> returns: the target has been
  updated and is not drawn to.
\<close>

theorem Draw_Update_then_skip_counterexample:
  "m_dirty ex_target = [ex_rect] \<and>
   Draw_update_targets (Some ex_target) None ex_renderer =
     ((Some (Update True ex_target), None), ex_renderer\<lparr>calls := [Target_Update ex_target True]\<rparr>) \<and>
   m_dirty (Update True ex_target) = [] \<and>
   Draw_m_oi (Some ex_m_oi) (Some (Update True ex_target)) None
       (ex_renderer\<lparr>calls := [Target_Update ex_target True]\<rparr>) =
     (Returns, ex_renderer\<lparr>calls := [Target_Update ex_target True, m_oi_call (Some 42) None]\<rparr>)"
  by (simp add: Draw_update_targets_def Draw_m_oi_def do_call_def Update_def ex_m_oi_def
      ex_target_def ex_renderer_def)

text \<open>
  C7, amended. When the lookup of \<open>GetOutput\<close> or of \<open>GetFeedbackOutput\<close> finds a target, the
  function calls \<open>Update\<close> on that target, right after the lookup and as its last call; the
  dirty queue of the target is empty from then on, and the texture the function returns is the
  one read from the target after the update. When the lookup finds nothing, the function makes
  no call of \<open>Update\<close> and returns no texture. So neither of the two functions updates any
  target but the one whose texture it hands out.
\<close>

theorem display_output_Update:
  "(LookupDisplayTarget env (GetOutput_TEX0 env i) (GetFramebufferSize env i) (GetTextureScaleFactor env) = Some rt \<longrightarrow>
      calls_made st (snd (GetOutput env i scale y_offset st)) =
        [PCRTC_RemoveFramebufferOffset i,
         TC_LookupDisplayTarget (GetOutput_TEX0 env i) (GetFramebufferSize env i) (GetTextureScaleFactor env),
         Target_Update rt False] \<and>
      m_dirty (Update False rt) = [] \<and>
      fst (fst (GetOutput env i scale y_offset st)) = m_texture (Update False rt)) \<and>
   (LookupDisplayTarget env (GetOutput_TEX0 env i) (GetFramebufferSize env i) (GetTextureScaleFactor env) = None \<longrightarrow>
      calls_made st (snd (GetOutput env i scale y_offset st)) =
        [PCRTC_RemoveFramebufferOffset i,
         TC_LookupDisplayTarget (GetOutput_TEX0 env i) (GetFramebufferSize env i) (GetTextureScaleFactor env)] \<and>
      fst (fst (GetOutput env i scale y_offset st)) = None) \<and>
   (LookupDisplayTarget env (GetFeedbackOutput_TEX0 env) (GetFramebufferSize env (EXTBUF_FBIN env AND 1))
      (GetTextureScaleFactor env) = Some rt' \<longrightarrow>
      calls_made st (snd (GetFeedbackOutput env scale st)) =
        [TC_LookupDisplayTarget (GetFeedbackOutput_TEX0 env) (GetFramebufferSize env (EXTBUF_FBIN env AND 1))
           (GetTextureScaleFactor env),
         Target_Update rt' False] \<and>
      m_dirty (Update False rt') = [] \<and>
      fst (fst (GetFeedbackOutput env scale st)) = m_texture (Update False rt')) \<and>
   (LookupDisplayTarget env (GetFeedbackOutput_TEX0 env) (GetFramebufferSize env (EXTBUF_FBIN env AND 1))
      (GetTextureScaleFactor env) = None \<longrightarrow>
      calls_made st (snd (GetFeedbackOutput env scale st)) =
        [TC_LookupDisplayTarget (GetFeedbackOutput_TEX0 env) (GetFramebufferSize env (EXTBUF_FBIN env AND 1))
           (GetTextureScaleFactor env)] \<and>
      fst (fst (GetFeedbackOutput env scale st)) = None) \<and>
   calls (snd (GetOutput env i scale y_offset st)) = calls st @ calls_made st (snd (GetOutput env i scale y_offset st)) \<and>
   calls (snd (GetFeedbackOutput env scale st)) = calls st @ calls_made st (snd (GetFeedbackOutput env scale st))"
proof (intro conjI impI)
  show "calls (snd (GetOutput env i scale y_offset st)) = calls st @ calls_made st (snd (GetOutput env i scale y_offset st))"
    by (cases "LookupDisplayTarget env (GetOutput_TEX0 env i) (GetFramebufferSize env i) (GetTextureScaleFactor env)")
       (simp_all add: calls_made_def GetOutput_found GetOutput_not_found)
  show "calls (snd (GetFeedbackOutput env scale st)) = calls st @ calls_made st (snd (GetFeedbackOutput env scale st))"
    by (cases "LookupDisplayTarget env (GetFeedbackOutput_TEX0 env) (GetFramebufferSize env (EXTBUF_FBIN env AND 1))
      (GetTextureScaleFactor env)")
       (simp_all add: calls_made_def GetFeedbackOutput_found GetFeedbackOutput_not_found)
  show "m_dirty (Update False rt) = []" by (simp add: Update_def)
  show "m_dirty (Update False rt') = []" by (simp add: Update_def)
qed (simp_all add: calls_made_def GetOutput_found GetOutput_not_found
       GetFeedbackOutput_found GetFeedbackOutput_not_found)

theorem display_output_Update_witness:
  "m_dirty ex_target = [ex_rect] \<and>
   calls_made ex_renderer (snd (GetOutput ex_display_env 0 0 0 ex_renderer)) =
     [PCRTC_RemoveFramebufferOffset 0,
      TC_LookupDisplayTarget \<lparr>TBP0 = 0x500, TBW = 10, PSM = 0\<rparr> \<lparr>v2x = 640, v2y = 448\<rparr> 0x40000000,
      Target_Update ex_target False] \<and>
   m_dirty (Update False ex_target) = [] \<and>
   fst (fst (GetOutput ex_display_env 0 0 0 ex_renderer)) = Some 42 \<and>
   calls_made ex_renderer (snd (GetOutput ex_display_env 1 0 0 ex_renderer)) =
     [PCRTC_RemoveFramebufferOffset 1,
      TC_LookupDisplayTarget \<lparr>TBP0 = 0x900, TBW = 10, PSM = 0\<rparr> \<lparr>v2x = 640, v2y = 448\<rparr> 0x40000000] \<and>
   fst (fst (GetOutput ex_display_env 1 0 0 ex_renderer)) = None \<and>
   calls_made ex_renderer (snd (GetFeedbackOutput (ex_display_env\<lparr>EXTBUF_EXBP := 0x500\<rparr>) 0 ex_renderer)) =
     [TC_LookupDisplayTarget \<lparr>TBP0 = 0x500, TBW = 10, PSM = 0\<rparr> \<lparr>v2x = 640, v2y = 448\<rparr> 0x40000000,
      Target_Update ex_target False] \<and>
   fst (fst (GetFeedbackOutput (ex_display_env\<lparr>EXTBUF_EXBP := 0x500\<rparr>) 0 ex_renderer)) = Some 42 \<and>
   calls_made ex_renderer (snd (GetFeedbackOutput ex_display_env 0 ex_renderer)) =
     [TC_LookupDisplayTarget \<lparr>TBP0 = 0x100, TBW = 10, PSM = 0\<rparr> \<lparr>v2x = 640, v2y = 448\<rparr> 0x40000000] \<and>
   fst (fst (GetFeedbackOutput ex_display_env 0 ex_renderer)) = None"
proof -
  have t0: "GetOutput_TEX0 ex_display_env 0 = \<lparr>TBP0 = 0x500, TBW = 10, PSM = 0\<rparr>"
    by (simp add: GetOutput_TEX0_def ex_display_env_def)
  have t1: "GetOutput_TEX0 ex_display_env 1 = \<lparr>TBP0 = 0x900, TBW = 10, PSM = 0\<rparr>"
    by (simp add: GetOutput_TEX0_def ex_display_env_def word_sle_eq)
  have f0: "GetFeedbackOutput_TEX0 (ex_display_env\<lparr>EXTBUF_EXBP := 0x500\<rparr>) = \<lparr>TBP0 = 0x500, TBW = 10, PSM = 0\<rparr>"
    by (simp add: GetFeedbackOutput_TEX0_def ex_display_env_def)
  have f1: "GetFeedbackOutput_TEX0 ex_display_env = \<lparr>TBP0 = 0x100, TBW = 10, PSM = 0\<rparr>"
    by (simp add: GetFeedbackOutput_TEX0_def ex_display_env_def)
  have e: "GetFramebufferSize ex_display_env = (\<lambda>i. \<lparr>v2x = 640, v2y = 448\<rparr>)"
    "GetTextureScaleFactor ex_display_env = 0x40000000"
    "LookupDisplayTarget ex_display_env = (\<lambda>TEX0 size scale. if TBP0 TEX0 = 0x500 then Some ex_target else None)"
    by (simp_all add: ex_display_env_def)
  have m: "m_texture (Update False ex_target) = Some 42" "m_dirty ex_target = [ex_rect]"
    by (simp_all add: ex_target_def Update_def)
  from display_output_Update [where env = ex_display_env and i = 0 and rt = ex_target and st = ex_renderer
      and scale = 0 and y_offset = 0]
  have a: "calls_made ex_renderer (snd (GetOutput ex_display_env 0 0 0 ex_renderer)) =
     [PCRTC_RemoveFramebufferOffset 0,
      TC_LookupDisplayTarget \<lparr>TBP0 = 0x500, TBW = 10, PSM = 0\<rparr> \<lparr>v2x = 640, v2y = 448\<rparr> 0x40000000,
      Target_Update ex_target False] \<and>
   m_dirty (Update False ex_target) = [] \<and>
   fst (fst (GetOutput ex_display_env 0 0 0 ex_renderer)) = Some 42"
    by (simp add: t0 e m)
  from display_output_Update [where env = ex_display_env and i = 1 and st = ex_renderer
      and scale = 0 and y_offset = 0]
  have b: "calls_made ex_renderer (snd (GetOutput ex_display_env 1 0 0 ex_renderer)) =
     [PCRTC_RemoveFramebufferOffset 1,
      TC_LookupDisplayTarget \<lparr>TBP0 = 0x900, TBW = 10, PSM = 0\<rparr> \<lparr>v2x = 640, v2y = 448\<rparr> 0x40000000] \<and>
   fst (fst (GetOutput ex_display_env 1 0 0 ex_renderer)) = None"
    by (simp add: t1 e)
  from display_output_Update [where env = "ex_display_env\<lparr>EXTBUF_EXBP := 0x500\<rparr>" and rt' = ex_target
      and st = ex_renderer and scale = 0]
  have c: "calls_made ex_renderer (snd (GetFeedbackOutput (ex_display_env\<lparr>EXTBUF_EXBP := 0x500\<rparr>) 0 ex_renderer)) =
     [TC_LookupDisplayTarget \<lparr>TBP0 = 0x500, TBW = 10, PSM = 0\<rparr> \<lparr>v2x = 640, v2y = 448\<rparr> 0x40000000,
      Target_Update ex_target False] \<and>
   fst (fst (GetFeedbackOutput (ex_display_env\<lparr>EXTBUF_EXBP := 0x500\<rparr>) 0 ex_renderer)) = Some 42"
    by (simp add: f0 e m)
  from display_output_Update [where env = ex_display_env and st = ex_renderer and scale = 0]
  have d: "calls_made ex_renderer (snd (GetFeedbackOutput ex_display_env 0 ex_renderer)) =
     [TC_LookupDisplayTarget \<lparr>TBP0 = 0x100, TBW = 10, PSM = 0\<rparr> \<lparr>v2x = 640, v2y = 448\<rparr> 0x40000000] \<and>
   fst (fst (GetFeedbackOutput ex_display_env 0 ex_renderer)) = None"
    by (simp add: f1 e)
  from a b c d m show ?thesis by blast
qed

subsection \<open>Surface creation on Direct3D 11\<close>

lemma FAILED_iff: "FAILED hr \<longleftrightarrow> \<not> SUCCEEDED hr"
  by (simp add: FAILED_def SUCCEEDED_def signed.not_le)

text \<open>
  C4, as the specification states it, fails. When Direct3D answers out of memory,
  \<open>CreateSurface\<close> does not return a null texture: it throws \<open>std::bad_alloc\<close>.
\<close>

theorem CreateSurface_failure_counterexample:
  "FAILED (fst (CreateTexture2D ex_d3d_out_of_memory
             (CreateSurface_desc ex_d3d_out_of_memory ex_device Type_RenderTarget 640 448 1 0))) \<and>
   CreateSurface ex_d3d_out_of_memory ex_device Type_RenderTarget 640 448 1 0 = Inl std_bad_alloc \<and>
   CreateSurface ex_d3d_out_of_memory ex_device Type_RenderTarget 640 448 1 0 \<noteq> Inr None"
  by (simp add: CreateSurface_def FAILED_def SUCCEEDED_def ex_d3d_out_of_memory_def
      word_sless_alt word_sle_eq)

text \<open>
  C4, amended. When the allocation by Direct3D fails, \<open>GSDevice11::CreateSurface\<close> throws
  \<open>std::bad_alloc\<close>; when it succeeds, the function returns the texture built from what
  Direct3D has put and from the description; it never returns a null texture.
\<close>

theorem CreateSurface_throws_or_returns_texture:
  "(FAILED (fst (CreateTexture2D env (CreateSurface_desc env dev type width height levels format))) \<longrightarrow>
      CreateSurface env dev type width height levels format = Inl std_bad_alloc) \<and>
   (SUCCEEDED (fst (CreateTexture2D env (CreateSurface_desc env dev type width height levels format))) \<longrightarrow>
      CreateSurface env dev type width height levels format =
        Inr (Some \<lparr>tex_texture = snd (CreateTexture2D env (CreateSurface_desc env dev type width height levels format)),
                   tex_desc = CreateSurface_desc env dev type width height levels format,
                   tex_type = type, tex_format = format\<rparr>)) \<and>
   CreateSurface env dev type width height levels format \<noteq> Inr None"
  by (cases "CreateTexture2D env (CreateSurface_desc env dev type width height levels format)")
     (simp add: CreateSurface_def FAILED_iff)

theorem CreateSurface_throws_or_returns_texture_witness:
  "FAILED (fst (CreateTexture2D ex_d3d_out_of_memory
             (CreateSurface_desc ex_d3d_out_of_memory ex_device Type_RenderTarget 640 448 1 0))) \<and>
   CreateSurface ex_d3d_out_of_memory ex_device Type_RenderTarget 640 448 1 0 = Inl std_bad_alloc \<and>
   SUCCEEDED (fst (CreateTexture2D ex_d3d_ok (CreateSurface_desc ex_d3d_ok ex_device Type_RenderTarget 640 448 1 0))) \<and>
   CreateSurface ex_d3d_ok ex_device Type_RenderTarget 640 448 1 0 =
     Inr (Some \<lparr>tex_texture = 7,
                tex_desc = \<lparr>Width = 640, Height = 448, MipLevels = 1, ArraySize = 1, DescFormat = 0,
                             SampleDesc_Count = 1, SampleDesc_Quality = 0, Usage = D3D11_USAGE_DEFAULT,
                             BindFlags = {D3D11_BIND_RENDER_TARGET, D3D11_BIND_SHADER_RESOURCE},
                             MiscFlags = {}\<rparr>,
                tex_type = Type_RenderTarget, tex_format = 0\<rparr>)"
proof -
  have f: "FAILED (fst (CreateTexture2D ex_d3d_out_of_memory
             (CreateSurface_desc ex_d3d_out_of_memory ex_device Type_RenderTarget 640 448 1 0)))"
    by (simp add: FAILED_def ex_d3d_out_of_memory_def word_sless_alt)
  have s: "SUCCEEDED (fst (CreateTexture2D ex_d3d_ok
             (CreateSurface_desc ex_d3d_ok ex_device Type_RenderTarget 640 448 1 0)))"
    by (simp add: SUCCEEDED_def ex_d3d_ok_def)
  have d: "CreateSurface_desc ex_d3d_ok ex_device Type_RenderTarget 640 448 1 0 =
     \<lparr>Width = 640, Height = 448, MipLevels = 1, ArraySize = 1, DescFormat = 0,
      SampleDesc_Count = 1, SampleDesc_Quality = 0, Usage = D3D11_USAGE_DEFAULT,
      BindFlags = {D3D11_BIND_RENDER_TARGET, D3D11_BIND_SHADER_RESOURCE}, MiscFlags = {}\<rparr>"
    by (simp add: CreateSurface_desc_def clamp_def ex_d3d_ok_def ex_device_def word_sless_alt)
  from CreateSurface_throws_or_returns_texture
         [of ex_d3d_out_of_memory ex_device Type_RenderTarget 640 448 1 0] f
  have 1: "CreateSurface ex_d3d_out_of_memory ex_device Type_RenderTarget 640 448 1 0 = Inl std_bad_alloc"
    by blast
  from CreateSurface_throws_or_returns_texture [of ex_d3d_ok ex_device Type_RenderTarget 640 448 1 0] s
  have 2: "CreateSurface ex_d3d_ok ex_device Type_RenderTarget 640 448 1 0 =
        Inr (Some \<lparr>tex_texture = snd (CreateTexture2D ex_d3d_ok (CreateSurface_desc ex_d3d_ok ex_device Type_RenderTarget 640 448 1 0)),
                   tex_desc = CreateSurface_desc ex_d3d_ok ex_device Type_RenderTarget 640 448 1 0,
                   tex_type = Type_RenderTarget, tex_format = 0\<rparr>)"
    by blast
  have 3: "CreateTexture2D ex_d3d_ok = (\<lambda>desc. (0, 7))" by (simp add: ex_d3d_ok_def)
  from f s 1 2 show ?thesis by (simp add: d 3)
qed

end
